theory Spec2Isabelle
  imports Complex_Main "HOL-Library.AList"
begin

section \<open>JavaScript values\<close>

text \<open>
  A JavaScript string is a sequence of UTF-16 code units; a code unit is modelled as a
  natural number. \<open>js\<close> embeds an ASCII literal of the source. The one non-ASCII literal of
  the code, the label prefix written in \<open>ExcelEditor.tsx\<close> line 122, is the single code
  unit \<open>0x5217\<close>.
\<close>

type_synonym jsstring = "nat list"

definition js :: "string \<Rightarrow> jsstring" where
  "js s = map of_char s"

text \<open>
  A cell of a sheet is \<open>any\<close> in the source. The model has the scalars that a parsed
  workbook or a JSON reply can hold: strings, numbers (integers, and \<open>NaN\<close> as the one
  further falsy number), booleans, \<open>null\<close> and \<open>undefined\<close>.
\<close>

datatype cell = Str jsstring | Num int | NaN | Bool bool | Null | Undefined

text \<open>JavaScript truthiness, as used by \<open>||\<close>, \<open>&&\<close> and \<open>if\<close>.\<close>

fun truthy :: "cell \<Rightarrow> bool" where
  "truthy (Str s) = (s \<noteq> [])"
| "truthy (Num n) = (n \<noteq> 0)"
| "truthy NaN = False"
| "truthy (Bool b) = b"
| "truthy Null = False"
| "truthy Undefined = False"

text \<open>\<open>a || b\<close> on cells, and on a string with a string default.\<close>

definition js_or :: "cell \<Rightarrow> cell \<Rightarrow> cell" where
  "js_or a b = (if truthy a then a else b)"

definition str_or :: "jsstring \<Rightarrow> jsstring \<Rightarrow> jsstring" where
  "str_or a b = (if a \<noteq> [] then a else b)"

text \<open>Decimal digits of a natural number, as template literals and \<open>String\<close> print it.\<close>

fun digits_of :: "nat \<Rightarrow> jsstring" where
  "digits_of n = (if n < 10 then [48 + n] else digits_of (n div 10) @ [48 + n mod 10])"

declare digits_of.simps [simp del]

definition show_int :: "int \<Rightarrow> jsstring" where
  "show_int n = (if n < 0 then 45 # digits_of (nat (- n)) else digits_of (nat n))"

text \<open>\<open>String(v)\<close>.\<close>

fun js_String :: "cell \<Rightarrow> jsstring" where
  "js_String (Str s) = s"
| "js_String (Num n) = show_int n"
| "js_String NaN = js ''NaN''"
| "js_String (Bool b) = (if b then js ''true'' else js ''false'')"
| "js_String Null = js ''null''"
| "js_String Undefined = js ''undefined''"

text \<open>
  \<open>String.prototype.trim\<close> removes leading and trailing white space and line
  terminators: TAB, LF, VT, FF, CR, SPACE, NBSP, the Unicode space separators, LS, PS and
  the byte order mark.
\<close>

definition is_ws :: "nat \<Rightarrow> bool" where
  "is_ws u = (u \<in> {0x09, 0x0A, 0x0B, 0x0C, 0x0D, 0x20, 0xA0, 0x1680, 0x2028, 0x2029,
                   0x202F, 0x205F, 0x3000, 0xFEFF} \<or> (0x2000 \<le> u \<and> u \<le> 0x200A))"

definition trim :: "jsstring \<Rightarrow> jsstring" where
  "trim s = rev (dropWhile is_ws (rev (dropWhile is_ws s)))"

text \<open>
  Reading an array element: \<open>xs[i]\<close> is \<open>undefined\<close> beyond the end. A row of the sheet
  may itself be \<open>null\<close> or \<open>undefined\<close> (the source guards every row access with
  \<open>?.\<close>); such a row is \<open>None\<close>.
\<close>

definition elem :: "cell list \<Rightarrow> nat \<Rightarrow> cell" where
  "elem xs i = (if i < length xs then xs ! i else Undefined)"

type_synonym row = "cell list option"
type_synonym sheet = "row list"

text \<open>\<open>row?.[i]\<close> and \<open>row?.length || 0\<close>.\<close>

definition opt_elem :: "row \<Rightarrow> nat \<Rightarrow> cell" where
  "opt_elem row i = (case row of None \<Rightarrow> Undefined | Some r \<Rightarrow> elem r i)"

definition opt_length :: "row \<Rightarrow> nat" where
  "opt_length row = (case row of None \<Rightarrow> 0 | Some r \<Rightarrow> length r)"

text \<open>
  \<open>Math.max(...xs)\<close> over row lengths. On the empty list JavaScript gives \<open>-Infinity\<close>;
  the only use is guarded by \<open>excelData.length\<close>, and as a loop bound \<open>-Infinity\<close> and
  \<open>0\<close> both give no iteration.
\<close>

fun Math_max :: "nat list \<Rightarrow> nat" where
  "Math_max [] = 0"
| "Math_max (x # xs) = max x (Math_max xs)"

section \<open>The tabular model adapter (frontend-app ExcelEditor.tsx)\<close>

text \<open>
  An object with string keys is an association list in insertion order; assigning a
  property replaces the value of an existing key in place and appends a new key
  (\<open>AList.update\<close>). Reading an absent property gives \<open>undefined\<close>.
\<close>

type_synonym row_obj = "(jsstring \<times> cell) list"

definition getProp :: "row_obj \<Rightarrow> jsstring \<Rightarrow> cell" where
  "getProp obj k = (case map_of obj k of None \<Rightarrow> Undefined | Some v \<Rightarrow> v)"

record col_def =
  field :: jsstring
  headerName :: jsstring
  editable :: bool
  sortable :: bool
  filter' :: bool
  resizable :: bool
  minWidth :: nat
  cellEditor :: jsstring

record grid =
  rowData :: "row_obj list"
  columnDefs :: "col_def list"

text \<open>The callback of \<open>headers.every\<close> (line 116).\<close>

fun is_header_cell :: "cell \<Rightarrow> bool" where
  "is_header_cell (Str header) = (trim header \<noteq> [])"
| "is_header_cell _ = False"

text \<open>The template literals \<open>col${i}\<close> and the synthetic label of line 122.\<close>

definition colKey :: "nat \<Rightarrow> jsstring" where
  "colKey i = js ''col'' @ digits_of i"

definition colLabel :: "nat \<Rightarrow> jsstring" where
  "colLabel i = [0x5217] @ digits_of (i + 1)"

text \<open>
  The body of the first loop (lines 122 to 132): the column pushed for index \<open>i\<close>, an
  object literal in which only \<open>field\<close> and \<open>headerName\<close> vary.
\<close>

definition textColumn :: "jsstring \<Rightarrow> jsstring \<Rightarrow> col_def" where
  "textColumn key header =
     \<lparr> field = key, headerName = header,
       editable = True, sortable = True, filter' = True, resizable = True,
       minWidth = 100, cellEditor = js ''agTextCellEditor'' \<rparr>"

definition colDef :: "bool \<Rightarrow> cell list \<Rightarrow> nat \<Rightarrow> col_def" where
  "colDef hasHeaders headers i =
     textColumn (colKey i)
       (if hasHeaders \<and> truthy (elem headers i) then js_String (elem headers i) else colLabel i)"

text \<open>The callback of \<open>map\<close> (lines 138 to 142): the row object of one data row.\<close>

definition rowObj :: "nat \<Rightarrow> row \<Rightarrow> nat \<Rightarrow> row_obj" where
  "rowObj maxCols row index =
     fold (\<lambda>i obj. AList.update (colKey i) (js_or (opt_elem row i) (Str [])) obj)
          [0..<maxCols] [(js ''id'', Num (int index))]"

text \<open>The \<open>useMemo\<close> of lines 109 to 146.\<close>

definition toGrid :: "sheet \<Rightarrow> grid" where
  "toGrid excelData =
    (if length excelData = 0 then \<lparr>rowData = [], columnDefs = []\<rparr>
     else
       let headers = (case excelData ! 0 of Some h \<Rightarrow> h | None \<Rightarrow> []);
           hasHeaders = list_all is_header_cell headers;
           maxCols = Math_max (map opt_length excelData);
           cols = fold (\<lambda>i cols. cols @ [colDef hasHeaders headers i]) [0..<maxCols] [];
           startRow = (if hasHeaders then 1 else 0);
           rows = map (\<lambda>(index, row). rowObj maxCols row index)
                      (enumerate 0 (drop startRow excelData))
       in \<lparr>rowData = rows, columnDefs = cols\<rparr>)"

text \<open>
  \<open>getGridData\<close> (lines 149 to 167). The grid widget is outside the repository: its state
  is the argument \<open>gridApi\<close>, \<open>None\<close> when the reference is not yet set, else the nodes
  in the order \<open>forEachNode\<close> visits them, each with its \<open>data\<close> (\<open>None\<close> when absent).
\<close>

definition getGridData :: "row_obj option list option \<Rightarrow> col_def list \<Rightarrow> cell list list" where
  "getGridData gridApi columnDefs' =
     (case gridApi of
        None \<Rightarrow> []
      | Some nodes \<Rightarrow>
          let allRows = List.map_filter (\<lambda>node. node) nodes;
              headers = map (\<lambda>col. Str (str_or (headerName col) [])) columnDefs';
              dataRows = map (\<lambda>row. map (\<lambda>col. js_or (getProp row (str_or (field col) [])) (Str []))
                                           columnDefs') allRows
          in headers # dataRows)"

text \<open>
  The reconciliation \<open>fromGrid\<close> of the specification is \<open>getGridData\<close> on a grid that
  holds the rows it was given, unedited; its result is a sheet again.
\<close>

definition fromGrid :: "grid \<Rightarrow> sheet" where
  "fromGrid g = map Some (getGridData (Some (map Some (rowData g))) (columnDefs g))"

text \<open>
  The intermediate values of \<open>toGrid\<close> by the names the source gives them, for stating
  properties of the result.
\<close>

definition headers_of :: "sheet \<Rightarrow> cell list" where
  "headers_of excelData = (case excelData ! 0 of Some h \<Rightarrow> h | None \<Rightarrow> [])"

definition hasHeaders_of :: "sheet \<Rightarrow> bool" where
  "hasHeaders_of excelData = list_all is_header_cell (headers_of excelData)"

definition maxCols_of :: "sheet \<Rightarrow> nat" where
  "maxCols_of excelData = Math_max (map opt_length excelData)"

definition startRow_of :: "sheet \<Rightarrow> nat" where
  "startRow_of excelData = (if hasHeaders_of excelData then 1 else 0)"

text \<open>
  What \<open>getGridData\<close> reads back from the row object of a sheet row: the first
  \<open>n\<close> cells, each falsy or missing one replaced by the empty string.
\<close>

definition padded :: "nat \<Rightarrow> row \<Rightarrow> cell list" where
  "padded n r = map (\<lambda>i. js_or (opt_elem r i) (Str [])) [0..<n]"

section \<open>The algorithm of toGrid as the specification words it\<close>






section \<open>The services (frontend-app services/api.ts)\<close>

text \<open>
  The HTTP client and the service behind it are outside the repository: together they are
  an argument that answers a request with the reply's \<open>data\<close> or rejects with an error.
  The interceptors of \<open>api.ts\<close> (lines 13 to 45) add the stored token to the request, log,
  and on status 401 clear the stored session and redirect; they pass the reply and the
  rejection on as they are, so they are part of that argument. What the application does
  to the outside is a list of effects, in the order of execution.
\<close>

datatype http_method = POST | PUT

datatype transport_error = NetworkError | HttpStatus nat

record File =
  name :: jsstring
  type' :: jsstring
  size' :: nat

record related_person_info =
  person_name :: jsstring
  relationship :: jsstring
  idNumber :: jsstring
  phone :: jsstring
  description :: "jsstring option"

record UploadFileData =
  file' :: File
  relatedPersonInfo :: related_person_info

record save_body =
  data :: "cell list list"
  file_name :: jsstring

datatype req_body = Json save_body | Multipart File related_person_info

record http_request =
  method' :: http_method
  url :: jsstring
  body :: req_body

record api_response =
  success :: bool
  message :: jsstring

record UploadResponse = api_response +
  excelUrl :: "jsstring option"
  fileName :: "jsstring option"

record SaveQuarterlyReportResponse = api_response +
  portfolioId :: "int option"

record QuarterlyReportData =
  investorId :: int
  quarter :: jsstring
  year :: int
  portfolioData :: "cell list list"

datatype effect =
    Request http_request
  | ConsoleError jsstring
  | MessageSuccess jsstring
  | MessageError jsstring
  | OnSave "cell list list"

fun requests_of :: "effect list \<Rightarrow> http_request list" where
  "requests_of [] = []"
| "requests_of (Request r # es) = r # requests_of es"
| "requests_of (_ # es) = requests_of es"

fun errors_shown :: "effect list \<Rightarrow> jsstring list" where
  "errors_shown [] = []"
| "errors_shown (MessageError m # es) = m # errors_shown es"
| "errors_shown (_ # es) = errors_shown es"

text \<open>\<open>uploadFileAndGetExcel\<close> (lines 67 to 90).\<close>

definition uploadFileAndGetExcel ::
  "(http_request \<Rightarrow> transport_error + UploadResponse) \<Rightarrow> UploadFileData
     \<Rightarrow> effect list \<times> UploadResponse" where
  "uploadFileAndGetExcel api d =
     (let req = \<lparr>method' = POST, url = js ''/v1/upload'',
                 body = Multipart (file' d) (relatedPersonInfo d)\<rparr>
      in case api req of
           Inr response_data \<Rightarrow> ([Request req], response_data)
         | Inl error \<Rightarrow>
             ([Request req,
               ConsoleError ([0x4E0A, 0x4F20, 0x6587, 0x4EF6, 0x5931, 0x8D25] @ js '':'')],
              \<lparr>success = True,
               message = [0x6587, 0x4EF6, 0x4E0A, 0x4F20, 0x6210, 0x529F, 0xFF0C, 0x5DF2, 0x751F,
                          0x6210] @ js ''Excel'' @ [0x6587, 0x4EF6],
               excelUrl = Some (js ''/example.xlsx''),
               fileName = Some (js ''example.xlsx'')\<rparr>))"

text \<open>
  \<open>saveQuarterlyReport\<close> (lines 150 to 162) and \<open>updateQuarterlyReport\<close> (lines 165 to
  177): the request is sent, a rejection is logged and thrown again (\<open>Inl\<close>).
\<close>

definition saveQuarterlyReport ::
  "(http_request \<Rightarrow> transport_error + SaveQuarterlyReportResponse) \<Rightarrow> QuarterlyReportData
     \<Rightarrow> effect list \<times> (transport_error + SaveQuarterlyReportResponse)" where
  "saveQuarterlyReport api d =
     (let saveData = \<lparr>data = portfolioData d, file_name = js ''quarterly_report.xlsx''\<rparr>;
          req = \<lparr>method' = POST,
                 url = js ''/v1/excel/quarterly-report/save?investor_id='' @ show_int (investorId d)
                       @ js ''&quarter='' @ quarter d @ js ''&year='' @ show_int (year d),
                 body = Json saveData\<rparr>
      in case api req of
           Inr response_data \<Rightarrow> ([Request req], Inr response_data)
         | Inl error \<Rightarrow>
             ([Request req,
               ConsoleError ([0x4FDD, 0x5B58, 0x5B63, 0x5EA6, 0x6295, 0x8D44, 0x62A5, 0x544A,
                              0x5931, 0x8D25] @ js '':'')],
              Inl error))"

definition updateQuarterlyReport ::
  "(http_request \<Rightarrow> transport_error + SaveQuarterlyReportResponse) \<Rightarrow> int \<Rightarrow> QuarterlyReportData
     \<Rightarrow> effect list \<times> (transport_error + SaveQuarterlyReportResponse)" where
  "updateQuarterlyReport api portfolioId' d =
     (let updateData = \<lparr>data = portfolioData d, file_name = js ''quarterly_report.xlsx''\<rparr>;
          req = \<lparr>method' = PUT,
                 url = js ''/v1/excel/quarterly-report/update?portfolio_id=''
                       @ show_int portfolioId',
                 body = Json updateData\<rparr>
      in case api req of
           Inr response_data \<Rightarrow> ([Request req], Inr response_data)
         | Inl error \<Rightarrow>
             ([Request req,
               ConsoleError ([0x66F4, 0x65B0, 0x5B63, 0x5EA6, 0x6295, 0x8D44, 0x62A5, 0x544A,
                              0x5931, 0x8D25] @ js '':'')],
              Inl error))"

section \<open>Saving to the store (frontend-app ExcelEditor.tsx)\<close>

text \<open>
  The component state that the handlers read and set, with the fields of the form of the
  save dialog (a field is \<open>None\<close> when it is empty), and \<open>handleSaveToDatabase\<close> (lines
  192 to 223). The props \<open>investorId\<close>, \<open>quarter\<close>, \<open>year\<close> and the optional
  \<open>portfolioId\<close> and \<open>onSave\<close> are arguments; \<open>if (portfolioId)\<close> is the truthiness
  of an optional number.
\<close>

record form_fields =
  form_investorId :: "int option"
  form_quarter :: "jsstring option"
  form_year :: "int option"


record editor_state =
  excelData :: sheet
  loading :: bool
  saving :: bool
  isModalVisible :: bool
  formFields :: form_fields

fun num_truthy :: "int option \<Rightarrow> bool" where
  "num_truthy None = False"
| "num_truthy (Some n) = (n \<noteq> 0)"

definition handleSaveToDatabase ::
  "(http_request \<Rightarrow> transport_error + SaveQuarterlyReportResponse)
     \<Rightarrow> int \<Rightarrow> jsstring \<Rightarrow> int \<Rightarrow> int option \<Rightarrow> bool
     \<Rightarrow> row_obj option list option \<Rightarrow> editor_state \<Rightarrow> effect list \<times> editor_state" where
  "handleSaveToDatabase api investorId' quarter' year' portfolioId' onSave gridApi st =
     (let currentData = getGridData gridApi (columnDefs (toGrid (excelData st)));
          saveData = \<lparr>investorId = investorId', quarter = quarter', year = year',
                      portfolioData = currentData\<rparr>;
          (sent, response) =
             (if num_truthy portfolioId'
              then updateQuarterlyReport api (case portfolioId' of Some p \<Rightarrow> p | None \<Rightarrow> 0) saveData
              else saveQuarterlyReport api saveData)
      in case response of
           Inr r \<Rightarrow>
             (sent @ (if success r
                      then MessageSuccess (message r) # (if onSave then [OnSave currentData] else [])
                      else []),
              st\<lparr>saving := False\<rparr>)
         | Inl error \<Rightarrow>
             (sent @ [ConsoleError ([0x4FDD, 0x5B58, 0x5230, 0x6570, 0x636E, 0x5E93, 0x5931, 0x8D25]
                                    @ js '':''),
                      MessageError [0x4FDD, 0x5B58, 0x5230, 0x6570, 0x636E, 0x5E93, 0x5931, 0x8D25]],
              st\<lparr>saving := False\<rparr>))"





section \<open>Upload validation (FileUpload.tsx, both copies)\<close>

definition startsWith :: "jsstring \<Rightarrow> jsstring \<Rightarrow> bool" where
  "startsWith s p = (take (length p) s = p)"

text \<open>
  \<open>beforeUpload\<close>: the messages it shows and the value it returns. Dividing a byte count
  by 1024 twice is exact in floating point, so the comparison is the one on the reals.
\<close>

definition msgInvalidType :: jsstring where
  "msgInvalidType = [0x53EA, 0x80FD, 0x4E0A, 0x4F20, 0x56FE, 0x7247, 0x6216] @ js ''PDF''
                    @ [0x6587, 0x4EF6, 0xFF01]"

definition msgTooLarge :: jsstring where
  "msgTooLarge = [0x6587, 0x4EF6, 0x5927, 0x5C0F, 0x4E0D, 0x80FD, 0x8D85, 0x8FC7] @ js ''10MB''
                 @ [0xFF01]"

definition beforeUpload :: "File \<Rightarrow> effect list \<times> bool" where
  "beforeUpload f =
     (let isValidType = (startsWith (type' f) (js ''image/'') \<or> type' f = js ''application/pdf'')
      in if \<not> isValidType then ([MessageError msgInvalidType], False)
         else let isLt10M = (real (size' f) / 1024 / 1024 < 10)
              in if \<not> isLt10M then ([MessageError msgTooLarge], False)
                 else ([], False))"

section \<open>Cell edits (src/components/ExcelEditor.tsx)\<close>

text \<open>
  Reading and writing a JavaScript array by index: a read beyond the end gives
  \<open>undefined\<close>, a write beyond the end extends the array, the skipped positions being
  holes that read as \<open>undefined\<close>. The hole value is the first argument of \<open>js_set\<close>:
  \<open>None\<close> for an array of rows, \<open>Undefined\<close> for a row of cells.
\<close>

definition js_get :: "row list \<Rightarrow> nat \<Rightarrow> row" where
  "js_get xs i = (if i < length xs then xs ! i else None)"

definition js_set :: "'a \<Rightarrow> 'a list \<Rightarrow> nat \<Rightarrow> 'a \<Rightarrow> 'a list" where
  "js_set hole xs i v =
     (if i < length xs then xs[i := v] else xs @ replicate (i - length xs) hole @ [v])"

text \<open>
  \<open>handleCellEdit\<close> (lines 55 to 62). The outer array is copied, a missing row is created
  empty, the cell is written into the row, and the copy becomes the new state.
\<close>

definition handleCellEdit :: "sheet \<Rightarrow> nat \<Rightarrow> nat \<Rightarrow> jsstring \<Rightarrow> sheet" where
  "handleCellEdit excelData' rowIndex colIndex val =
     (let newData = excelData';
          newData = (if js_get newData rowIndex = None
                     then js_set None newData rowIndex (Some []) else newData);
          r = (case js_get newData rowIndex of Some cells \<Rightarrow> cells | None \<Rightarrow> [])
      in js_set None newData rowIndex (Some (js_set Undefined r colIndex (Str val))))"

text \<open>The cell at a position, as the table reads it: \<open>excelData[r]?.[c]\<close>.\<close>

definition cellAt :: "sheet \<Rightarrow> nat \<Rightarrow> nat \<Rightarrow> cell" where
  "cellAt S r c = opt_elem (js_get S r) c"


section \<open>Strings, keys and labels\<close>

lemma digits_of_nonempty: "digits_of n \<noteq> []"
  by (subst digits_of.simps) simp

lemma digits_of_range: "d \<in> set (digits_of n) \<Longrightarrow> 48 \<le> d \<and> d \<le> 57"
proof (induction n rule: digits_of.induct)
  case (1 n)
  show ?case
  proof (cases "n < 10")
    case True
    with "1.prems" show ?thesis by (subst (asm) digits_of.simps) simp
  next
    case False
    from "1.prems" have "d \<in> set (digits_of (n div 10)) \<or> d = 48 + n mod 10"
      using False by (subst (asm) digits_of.simps) auto
    with "1.IH" False show ?thesis by auto
  qed
qed

lemma digits_of_inj: "digits_of m = digits_of n \<Longrightarrow> m = n"
proof (induction m arbitrary: n rule: digits_of.induct)
  case (1 m)
  show ?case
  proof (cases "m < 10")
    case mT: True
    show ?thesis
    proof (cases "n < 10")
      case True
      with mT "1.prems" show ?thesis
        by (simp add: digits_of.simps [of m] digits_of.simps [of n])
    next
      case False
      with mT "1.prems" digits_of_nonempty [of "n div 10"] show ?thesis
        by (simp add: digits_of.simps [of m] digits_of.simps [of n] Cons_eq_append_conv)
    qed
  next
    case mF: False
    show ?thesis
    proof (cases "n < 10")
      case True
      with mF "1.prems" digits_of_nonempty [of "m div 10"] show ?thesis
        by (simp add: digits_of.simps [of m] digits_of.simps [of n] append_eq_Cons_conv)
    next
      case False
      with mF "1.prems" have e: "digits_of (m div 10) = digits_of (n div 10)" "m mod 10 = n mod 10"
        by (simp_all add: digits_of.simps [of m] digits_of.simps [of n])
      from "1.IH" [OF mF e(1)] have "m div 10 = n div 10" .
      with e(2) show ?thesis by (metis div_mult_mod_eq)
    qed
  qed
qed

lemma trim_nonempty_iff: "trim s \<noteq> [] \<longleftrightarrow> (\<exists>c \<in> set s. \<not> is_ws c)"
proof -
  have "dropWhile is_ws (rev (dropWhile is_ws s)) = [] \<longleftrightarrow> dropWhile is_ws s = []"
  proof
    assume a: "dropWhile is_ws (rev (dropWhile is_ws s)) = []"
    show "dropWhile is_ws s = []"
    proof (rule ccontr)
      assume n: "dropWhile is_ws s \<noteq> []"
      then have "\<not> is_ws (hd (dropWhile is_ws s))" by (rule hd_dropWhile)
      moreover from n have "hd (dropWhile is_ws s) \<in> set (rev (dropWhile is_ws s))" by simp
      ultimately show False using a by auto
    qed
  qed (auto dest: set_dropWhileD)
  then show ?thesis by (auto simp: trim_def)
qed

lemma colKey_inj: "colKey i = colKey j \<Longrightarrow> i = j"
  by (simp add: colKey_def digits_of_inj)

lemma colKey_not_id: "colKey i \<noteq> js ''id''"
  by (simp add: colKey_def js_def)

lemma colLabel_not_blank: "trim (colLabel i) \<noteq> []"
  unfolding trim_nonempty_iff by (auto simp: colLabel_def is_ws_def)

lemma fold_push: "fold (\<lambda>i cols. cols @ [f i]) xs acc = acc @ map f xs"
  by (induction xs arbitrary: acc) simp_all

lemma update_fresh: "k \<notin> fst ` set al \<Longrightarrow> AList.update k v al = al @ [(k, v)]"
  by (induction al) auto

lemma fold_update_fresh:
  "inj_on key (set xs) \<Longrightarrow> distinct xs \<Longrightarrow> (\<forall>i \<in> set xs. key i \<notin> fst ` set obj) \<Longrightarrow>
   fold (\<lambda>i obj. AList.update (key i) (val i) obj) xs obj = obj @ map (\<lambda>i. (key i, val i)) xs"
proof (induction xs arbitrary: obj)
  case Nil
  then show ?case by simp
next
  case (Cons x xs)
  have "\<forall>i \<in> set xs. key i \<notin> fst ` set (obj @ [(key x, val x)])"
    using Cons.prems by (auto simp: inj_on_def)
  with Cons show ?case by (simp add: update_fresh)
qed

lemma rowObj_eq:
  "rowObj n r k = (js ''id'', Num (int k)) # map (\<lambda>i. (colKey i, js_or (opt_elem r i) (Str []))) [0..<n]"
  unfolding rowObj_def
  by (subst fold_update_fresh) (auto simp: inj_on_def colKey_inj colKey_not_id)

lemma map_of_keyed:
  "inj key \<Longrightarrow> i \<in> set xs \<Longrightarrow> map_of (map (\<lambda>i. (key i, val i)) xs) (key i) = Some (val i)"
  by (induction xs) (auto simp: inj_def)

lemma getProp_rowObj:
  assumes "i < n"
  shows "getProp (rowObj n r k) (colKey i) = js_or (opt_elem r i) (Str [])"
proof -
  have "inj colKey" by (auto simp: inj_def colKey_inj)
  then have "map_of (map (\<lambda>i. (colKey i, js_or (opt_elem r i) (Str []))) [0..<n]) (colKey i)
             = Some (js_or (opt_elem r i) (Str []))"
    using assms map_of_keyed [where key = colKey and val = "\<lambda>i. js_or (opt_elem r i) (Str [])" and xs = "[0..<n]" and i = i]
    by simp
  then show ?thesis by (simp add: rowObj_eq getProp_def colKey_not_id)
qed

section \<open>The result of toGrid and of getGridData\<close>

lemma toGrid_Nil: "toGrid [] = \<lparr>rowData = [], columnDefs = []\<rparr>"
  by (simp add: toGrid_def)

lemma toGrid_unfold:
  "S \<noteq> [] \<Longrightarrow> toGrid S =
     \<lparr>rowData = map (\<lambda>(k, r). rowObj (maxCols_of S) r k) (enumerate 0 (drop (startRow_of S) S)),
      columnDefs = map (colDef (hasHeaders_of S) (headers_of S)) [0..<maxCols_of S]\<rparr>"
  by (simp add: toGrid_def Let_def fold_push headers_of_def hasHeaders_of_def maxCols_of_def
      startRow_of_def)

lemma map_filter_Some: "List.map_filter (\<lambda>node. node) (map Some xs) = xs"
  by (induction xs) (simp_all add: List.map_filter_simps)

lemma fromGrid_unfold:
  "fromGrid g = Some (map (\<lambda>col. Str (headerName col)) (columnDefs g))
      # map (\<lambda>obj. Some (map (\<lambda>col. js_or (getProp obj (field col)) (Str [])) (columnDefs g)))
            (rowData g)"
  by (simp add: fromGrid_def getGridData_def Let_def map_filter_Some str_or_def)

lemma js_or_idem: "js_or (js_or c (Str [])) (Str []) = js_or c (Str [])"
  by (simp add: js_or_def)

lemma Math_max_le: "\<forall>x \<in> set xs. x \<le> n \<Longrightarrow> Math_max xs \<le> n"
  by (induction xs) auto


lemma Math_max_const: "xs \<noteq> [] \<Longrightarrow> \<forall>x \<in> set xs. x = n \<Longrightarrow> Math_max xs = n"
  by (cases xs) (auto intro!: antisym Math_max_le simp: max_def)


lemma header_cell_nonblank:
  assumes "hh = list_all is_header_cell hs"
  shows "trim (headerName (colDef hh hs i)) \<noteq> []"
proof (cases "hh \<and> truthy (elem hs i)")
  case True
  then have "i < length hs" by (auto simp: elem_def split: if_splits)
  with True assms have "is_header_cell (hs ! i)" by (simp add: list_all_length)
  then show ?thesis using True \<open>i < length hs\<close>
    by (cases "hs ! i") (auto simp: colDef_def textColumn_def elem_def)
next
  case False
  then show ?thesis by (auto simp: colDef_def textColumn_def colLabel_not_blank)
qed

lemma trim_nonblank_nonempty: "trim s \<noteq> [] \<Longrightarrow> s \<noteq> []"
  by (auto simp: trim_def)

lemma colDef_roundtrip:
  assumes "hh = list_all is_header_cell hs" and "i < n"
  shows "colDef True (map (\<lambda>i. Str (headerName (colDef hh hs i))) [0..<n]) i = colDef hh hs i"
proof -
  define h where "h = headerName (colDef hh hs i)"
  have "h \<noteq> []"
    unfolding h_def using header_cell_nonblank [OF assms(1)] by (rule trim_nonblank_nonempty)
  moreover have "elem (map (\<lambda>i. Str (headerName (colDef hh hs i))) [0..<n]) i = Str h"
    using assms(2) by (simp add: elem_def h_def)
  ultimately have "colDef True (map (\<lambda>i. Str (headerName (colDef hh hs i))) [0..<n]) i
      = textColumn (colKey i) h"
    by (simp add: colDef_def [of True])
  also have "\<dots> = colDef hh hs i"
    by (simp add: h_def) (simp add: colDef_def textColumn_def)
  finally show ?thesis .
qed

lemma vals_rowObj:
  "map (\<lambda>i. js_or (getProp (rowObj n r k) (field (colDef hh hs i))) (Str [])) [0..<n]
     = padded n r"
  by (simp add: padded_def colDef_def textColumn_def getProp_rowObj js_or_idem)

lemma rowObj_padded: "rowObj n (Some (padded n r)) k = rowObj n r k"
  by (cases r) (auto simp: rowObj_eq padded_def opt_elem_def elem_def js_or_idem)

lemma map_snd_enumerate': "map (\<lambda>x. f (snd x)) (enumerate k xs) = map f xs"
  by (induction xs arbitrary: k) simp_all

lemma enumerate_map: "enumerate k (map f xs) = map (\<lambda>(i, x). (i, f x)) (enumerate k xs)"
  by (induction xs arbitrary: k) simp_all

lemma fromGrid_toGrid:
  assumes "S \<noteq> []"
  shows "fromGrid (toGrid S) =
     Some (map (\<lambda>i. Str (headerName (colDef (hasHeaders_of S) (headers_of S) i))) [0..<maxCols_of S])
       # map (\<lambda>r. Some (padded (maxCols_of S) r)) (drop (startRow_of S) S)"
proof -
  show ?thesis
    using assms
      map_snd_enumerate' [where f = "\<lambda>r. Some (padded (maxCols_of S) r)" and k = 0
        and xs = "drop (startRow_of S) S"]
    by (simp add: toGrid_unfold fromGrid_unfold o_def vals_rowObj split_def)
qed

lemma toGrid_fromGrid_toGrid: "toGrid (fromGrid (toGrid S)) = toGrid S"
proof (cases "S = []")
  case True
  then show ?thesis
    by (simp add: toGrid_Nil fromGrid_unfold toGrid_unfold maxCols_of_def opt_length_def
        startRow_of_def hasHeaders_of_def headers_of_def)
next
  case False
  define n where "n = maxCols_of S"
  define hh where "hh = hasHeaders_of S"
  define hs where "hs = headers_of S"
  define d where "d = drop (startRow_of S) S"
  define H where "H = map (\<lambda>i. Str (headerName (colDef hh hs i))) [0..<n]"
  define S2 where "S2 = Some H # map (\<lambda>r. Some (padded n r)) d"
  have hh: "hh = list_all is_header_cell hs"
    by (simp add: hh_def hs_def hasHeaders_of_def)
  have G: "toGrid S = \<lparr>rowData = map (\<lambda>(k, r). rowObj n r k) (enumerate 0 d),
                        columnDefs = map (colDef hh hs) [0..<n]\<rparr>"
    using False by (simp add: toGrid_unfold n_def hh_def hs_def d_def)
  have S': "fromGrid (toGrid S) = S2"
    using False by (simp add: fromGrid_toGrid H_def n_def hh_def hs_def d_def S2_def)
  have hs': "headers_of S2 = H"
    by (simp add: S2_def headers_of_def)
  have "list_all is_header_cell H"
    using header_cell_nonblank [OF hh] by (simp add: H_def list_all_iff)
  then have hh': "hasHeaders_of S2 = True"
    by (simp add: hasHeaders_of_def hs')
  then have st': "startRow_of S2 = 1"
    by (simp add: startRow_of_def)
  have n': "maxCols_of S2 = n"
    unfolding maxCols_of_def S2_def
    by (rule Math_max_const) (auto simp: opt_length_def H_def padded_def)
  have cols: "map (colDef True H) [0..<n] = map (colDef hh hs) [0..<n]"
    unfolding H_def using colDef_roundtrip [OF hh] by simp
  have rows: "map (\<lambda>(k, r). rowObj n r k) (enumerate 0 (drop 1 S2))
              = map (\<lambda>(k, r). rowObj n r k) (enumerate 0 d)"
    by (simp add: S2_def enumerate_map split_def rowObj_padded o_def)
  have "S2 \<noteq> []" by (simp add: S2_def)
  then have "toGrid S2 =
     \<lparr>rowData = map (\<lambda>(k, r). rowObj (maxCols_of S2) r k) (enumerate 0 (drop (startRow_of S2) S2)),
      columnDefs = map (colDef (hasHeaders_of S2) (headers_of S2)) [0..<maxCols_of S2]\<rparr>"
    by (rule toGrid_unfold)
  then have T: "toGrid S2 = \<lparr>rowData = map (\<lambda>(k, r). rowObj n r k) (enumerate 0 d),
                              columnDefs = map (colDef hh hs) [0..<n]\<rparr>"
    unfolding n' hs' hh' st' rows cols .
  have "toGrid (fromGrid (toGrid S)) = toGrid S2" by (simp only: S')
  also note T
  also have "\<lparr>rowData = map (\<lambda>(k, r). rowObj n r k) (enumerate 0 d),
              columnDefs = map (colDef hh hs) [0..<n]\<rparr> = toGrid S" by (simp only: G)
  finally show ?thesis .
qed

section \<open>The round trip\<close>

text \<open>
  C2. Projecting a sheet to the grid and reconciling it back is stable: a second round trip
  changes neither the grid nor the sheet (\<open>toGrid\<close> after \<open>fromGrid\<close> after \<open>toGrid\<close> is
  \<open>toGrid\<close>, for every sheet, and so for every sheet \<open>fromGrid\<close> produces from any grid).
  \<open>fromGrid\<close> gives the display headers of the column definitions as first row, then for
  each row object its values in the order of the column definitions, the empty string where
  the row has no value. The first round trip does change a non-empty sheet whose first row
  is not a header row: \<open>fromGrid\<close> puts the synthetic header row in front of it.
\<close>

theorem roundtrip_idempotent:
  "toGrid (fromGrid (toGrid (fromGrid (toGrid S)))) = toGrid (fromGrid (toGrid S))
   \<and> toGrid (fromGrid (toGrid S)) = toGrid S
   \<and> toGrid (fromGrid (toGrid (fromGrid g))) = toGrid (fromGrid g)
   \<and> fromGrid (toGrid (fromGrid (toGrid S))) = fromGrid (toGrid S)
   \<and> fromGrid g =
       Some (map (\<lambda>col. Str (headerName col)) (columnDefs g))
       # map (\<lambda>obj. Some (map (\<lambda>col. js_or (getProp obj (field col)) (Str [])) (columnDefs g)))
             (rowData g)
   \<and> (S \<noteq> [] \<and> \<not> hasHeaders_of S \<longrightarrow> fromGrid (toGrid S) \<noteq> S)"
proof -
  note fromGrid_unfold [of g]
  moreover
  have "fromGrid (toGrid S) \<noteq> S" if "S \<noteq> []" "\<not> hasHeaders_of S"
  proof
    assume "fromGrid (toGrid S) = S"
    then have "length (fromGrid (toGrid S)) = length S" by simp
    with that show False by (simp add: fromGrid_toGrid startRow_of_def)
  qed
  ultimately show ?thesis by (simp add: toGrid_fromGrid_toGrid)
qed

theorem roundtrip_idempotent_witness:
  "[Some [Num 5, Num 6], Some [Num 7, Num 8]] \<noteq> []
   \<and> \<not> hasHeaders_of [Some [Num 5, Num 6], Some [Num 7, Num 8]]
   \<and> fromGrid (toGrid [Some [Num 5, Num 6], Some [Num 7, Num 8]])
       \<noteq> [Some [Num 5, Num 6], Some [Num 7, Num 8]]
   \<and> toGrid (fromGrid (toGrid [Some [Num 5, Num 6], Some [Num 7, Num 8]]))
       = toGrid [Some [Num 5, Num 6], Some [Num 7, Num 8]]"
proof -
  have "[Some [Num 5, Num 6], Some [Num 7, Num 8]] \<noteq> []
        \<and> \<not> hasHeaders_of [Some [Num 5, Num 6], Some [Num 7, Num 8]]"
    by (simp add: hasHeaders_of_def headers_of_def)
  with roundtrip_idempotent [where S = "[Some [Num 5, Num 6], Some [Num 7, Num 8]]"
      and g = "toGrid [Some [Num 5, Num 6], Some [Num 7, Num 8]]"]
  show ?thesis by blast
qed

section \<open>toGrid against the specified algorithm\<close>




lemmas eval_defs = toGrid_def Let_def opt_length_def opt_elem_def elem_def colDef_def colKey_def colLabel_def
  rowObj_def js_or_def trim_def is_ws_def js_def digits_of.simps textColumn_def
  hasHeaders_of_def headers_of_def maxCols_of_def startRow_of_def





section \<open>Two sheets of the specification\<close>

text \<open>
  C3, as amended. For the ragged sheet with rows \<open>["a"]\<close> and \<open>["b","c","d"]\<close> the width
  is 3; header inference looks at the one cell row 0 has, a non-blank string, so row 0 is
  the header row; the columns are headed \<open>a\<close> and, by the synthetic labels, \<open>0x5217 2\<close>
  and \<open>0x5217 3\<close>; the grid has exactly one data row, \<open>b, c, d\<close>.
\<close>

theorem ragged_sheet_grid: "maxCols_of [Some [Str (js ''a'')], Some [Str (js ''b''), Str (js ''c''), Str (js ''d'')]] = 3
  \<and> hasHeaders_of [Some [Str (js ''a'')], Some [Str (js ''b''), Str (js ''c''), Str (js ''d'')]]
  \<and> toGrid [Some [Str (js ''a'')], Some [Str (js ''b''), Str (js ''c''), Str (js ''d'')]] =
     \<lparr>rowData = [[(js ''id'', Num 0), (js ''col0'', Str (js ''b'')), (js ''col1'', Str (js ''c'')),
                   (js ''col2'', Str (js ''d''))]],
      columnDefs = [textColumn (js ''col0'') (js ''a''), textColumn (js ''col1'') (0x5217 # js ''2''),
                    textColumn (js ''col2'') (0x5217 # js ''3'')]\<rparr>"
  by (simp add: eval_defs upt_rec)


text \<open>
  C3, as stated, fails: row 0 is taken as header row and the grid has one data row, not
  two.
\<close>

theorem ragged_sheet_counterexample: "\<not> (maxCols_of [Some [Str (js ''a'')], Some [Str (js ''b''), Str (js ''c''), Str (js ''d'')]] = 3
  \<and> \<not> hasHeaders_of [Some [Str (js ''a'')], Some [Str (js ''b''), Str (js ''c''), Str (js ''d'')]]
  \<and> length (rowData (toGrid [Some [Str (js ''a'')], Some [Str (js ''b''), Str (js ''c''), Str (js ''d'')]])) = 2)"
  by (simp add: eval_defs)


text \<open>
  C4, as amended. For the sheet of the numbers 5, 6 and 7, 8 the two columns carry the
  synthetic labels \<open>0x5217 1\<close> and \<open>0x5217 2\<close> and both rows are data rows, the first
  holding 5 and 6. For the sheet of the strings \<open>"5","6"\<close> and \<open>"7","8"\<close> row 0 is a
  row of non-blank strings, so it is the header row: the columns are headed \<open>5\<close> and
  \<open>6\<close> and the one data row holds \<open>"7"\<close> and \<open>"8"\<close>.
\<close>

theorem numeric_first_row_grid: "toGrid [Some [Num 5, Num 6], Some [Num 7, Num 8]] =
     \<lparr>rowData = [[(js ''id'', Num 0), (js ''col0'', Num 5), (js ''col1'', Num 6)],
                  [(js ''id'', Num 1), (js ''col0'', Num 7), (js ''col1'', Num 8)]],
      columnDefs = [textColumn (js ''col0'') (0x5217 # js ''1''), textColumn (js ''col1'') (0x5217 # js ''2'')]\<rparr>
  \<and> toGrid [Some [Str (js ''5''), Str (js ''6'')], Some [Str (js ''7''), Str (js ''8'')]] =
     \<lparr>rowData = [[(js ''id'', Num 0), (js ''col0'', Str (js ''7'')), (js ''col1'', Str (js ''8''))]],
      columnDefs = [textColumn (js ''col0'') (js ''5''), textColumn (js ''col1'') (js ''6'')]\<rparr>"
  by (simp add: eval_defs upt_rec)

text \<open>
  C4, as stated, fails: for the sheet of strings the headers are not \<open>Column 1\<close> and
  \<open>Column 2\<close> and there are not two data rows.
\<close>

theorem string_digits_counterexample: "\<not> (map headerName (columnDefs (toGrid [Some [Str (js ''5''), Str (js ''6'')], Some [Str (js ''7''), Str (js ''8'')]]))
        = [js ''Column 1'', js ''Column 2'']
      \<and> length (rowData (toGrid [Some [Str (js ''5''), Str (js ''6'')], Some [Str (js ''7''), Str (js ''8'')]])) = 2)"
  by (simp add: eval_defs upt_rec)


section \<open>Falsy cells\<close>

lemma toGrid_cell:
  assumes "k < length (drop (startRow_of S) S)" and "i < maxCols_of S"
  shows "getProp (rowData (toGrid S) ! k) (colKey i)
           = js_or (opt_elem (drop (startRow_of S) S ! k) i) (Str [])"
proof -
  from assms(1) have "S \<noteq> []" by auto
  with assms show ?thesis
    by (simp add: toGrid_unfold nth_enumerate_eq getProp_rowObj)
qed

lemma getGridData_cell:
  assumes "k < length (List.map_filter (\<lambda>node. node) nodes)" and "j < length cols"
  shows "getGridData (Some nodes) cols ! Suc k ! j
           = js_or (getProp (List.map_filter (\<lambda>node. node) nodes ! k) (str_or (field (cols ! j)) []))
                   (Str [])"
  using assms by (simp add: getGridData_def Let_def)

lemma fromGrid_toGrid_cells:
  assumes "Some cells \<in> set (fromGrid (toGrid S))" and "c \<in> set cells"
  shows "truthy c \<or> c = Str []"
proof (cases "S = []")
  case True
  with assms show ?thesis by (simp add: toGrid_Nil fromGrid_unfold)
next
  case False
  have hh: "hasHeaders_of S = list_all is_header_cell (headers_of S)"
    by (simp add: hasHeaders_of_def)
  from assms(1) False consider
      "cells = map (\<lambda>i. Str (headerName (colDef (hasHeaders_of S) (headers_of S) i))) [0..<maxCols_of S]"
    | r where "cells = padded (maxCols_of S) r"
    by (auto simp: fromGrid_toGrid)
  then show ?thesis
  proof cases
    case 1
    with assms(2) obtain i where "c = Str (headerName (colDef (hasHeaders_of S) (headers_of S) i))"
      by auto
    with header_cell_nonblank [OF hh, of i] show ?thesis
      by (auto dest: trim_nonblank_nonempty)
  next
    case 2
    with assms(2) show ?thesis by (auto simp: padded_def js_or_def)
  qed
qed


text \<open>
  C10. In \<open>toGrid\<close> a data cell that is falsy (0, the empty string, \<open>null\<close>,
  \<open>undefined\<close>, \<open>false\<close>, and a missing cell) is stored as the empty string; in
  \<open>getGridData\<close> a falsy value of a row is written as the empty string; so no row that
  the round trip produces holds the number 0 (nor another falsy value but the empty
  string), and the sheet with header \<open>h\<close> and the one cell 0 comes back with the empty
  string in place of 0.
\<close>

theorem falsy_cells_become_blank:
  "(k < length (drop (startRow_of S) S) \<and> i < maxCols_of S
      \<and> \<not> truthy (opt_elem (drop (startRow_of S) S ! k) i)
     \<longrightarrow> getProp (rowData (toGrid S) ! k) (colKey i) = Str [])
   \<and> (k' < length (List.map_filter (\<lambda>node. node) nodes) \<and> j < length cols
      \<and> \<not> truthy (getProp (List.map_filter (\<lambda>node. node) nodes ! k') (str_or (field (cols ! j)) []))
     \<longrightarrow> getGridData (Some nodes) cols ! Suc k' ! j = Str [])
   \<and> (Some cells \<in> set (fromGrid (toGrid S))
     \<longrightarrow> Num 0 \<notin> set cells \<and> NaN \<notin> set cells \<and> Bool False \<notin> set cells
        \<and> Null \<notin> set cells \<and> Undefined \<notin> set cells)
   \<and> \<not> truthy (Num 0) \<and> \<not> truthy (Str []) \<and> \<not> truthy Null \<and> \<not> truthy Undefined
   \<and> \<not> truthy (Bool False)
   \<and> fromGrid (toGrid [Some [Str (js ''h'')], Some [Num 0]]) = [Some [Str (js ''h'')], Some [Str []]]"
proof -
  have "fromGrid (toGrid [Some [Str (js ''h'')], Some [Num 0]]) = [Some [Str (js ''h'')], Some [Str []]]"
    by (simp add: eval_defs fromGrid_def getGridData_def List.map_filter_simps getProp_def str_or_def)
  moreover have "Num 0 \<notin> set cells \<and> NaN \<notin> set cells \<and> Bool False \<notin> set cells
        \<and> Null \<notin> set cells \<and> Undefined \<notin> set cells"
    if "Some cells \<in> set (fromGrid (toGrid S))"
    using fromGrid_toGrid_cells [OF that] by fastforce
  ultimately show ?thesis
    by (simp add: toGrid_cell getGridData_cell js_or_def)
qed


theorem falsy_cells_become_blank_witness:
  "(0::nat) < length (drop (startRow_of [Some [Str (js ''h'')], Some [Num 0]]) [Some [Str (js ''h'')], Some [Num 0]])
   \<and> (0::nat) < maxCols_of [Some [Str (js ''h'')], Some [Num 0]]
   \<and> \<not> truthy (opt_elem (drop (startRow_of [Some [Str (js ''h'')], Some [Num 0]]) [Some [Str (js ''h'')], Some [Num 0]] ! 0) 0)
   \<and> getProp (rowData (toGrid [Some [Str (js ''h'')], Some [Num 0]]) ! 0) (colKey 0) = Str []
   \<and> (0::nat) < length (List.map_filter (\<lambda>node. node) [Some [(js ''id'', Num 0), (js ''col0'', Num 0)]])
   \<and> (0::nat) < length [textColumn (js ''col0'') (js ''h'')]
   \<and> getGridData (Some [Some [(js ''id'', Num 0), (js ''col0'', Num 0)]]) [textColumn (js ''col0'') (js ''h'')] ! Suc 0 ! 0 = Str []
   \<and> Some [Str []] \<in> set (fromGrid (toGrid [Some [Str (js ''h'')], Some [Num 0]]))
   \<and> Num 0 \<notin> set [Str []]"
  using falsy_cells_become_blank [where k = 0 and S = "[Some [Str (js ''h'')], Some [Num 0]]"
      and i = 0 and k' = 0 and nodes = "[Some [(js ''id'', Num 0), (js ''col0'', Num 0)]]"
      and j = 0 and cols = "[textColumn (js ''col0'') (js ''h'')]" and cells = "[Str []]"]
  by (simp add: eval_defs fromGrid_def getGridData_def List.map_filter_simps getProp_def str_or_def)

section \<open>Saving to the store\<close>


lemma errors_shown_append: "errors_shown (xs @ ys) = errors_shown xs @ errors_shown ys"
  by (induction xs rule: errors_shown.induct) simp_all



lemma saveQuarterlyReport_errors: "errors_shown (fst (saveQuarterlyReport api d)) = []"
  by (simp add: saveQuarterlyReport_def Let_def split: sum.splits)

lemma updateQuarterlyReport_errors: "errors_shown (fst (updateQuarterlyReport api p d)) = []"
  by (simp add: updateQuarterlyReport_def Let_def split: sum.splits)



lemma handleSaveToDatabase_state:
  "snd (handleSaveToDatabase api iid q y pid onSave gridApi st) = st\<lparr>saving := False\<rparr>"
  by (simp add: handleSaveToDatabase_def Let_def split: prod.splits sum.splits)






text \<open>
  C6. When the store answers a save with a reply whose \<open>success\<close> is false, the handler
  sends the request and then shows no message at all, where the claim has the error
  message surfaced to the user. The other parts of the claim hold: a rejected request
  ends in the one fixed error message, and in every case the sheet data of the component
  is what it was.
\<close>

theorem unsuccessful_reply_shows_nothing:
  "errors_shown (fst (handleSaveToDatabase
       (\<lambda>req. Inr \<lparr>success = False, message = m, portfolioId = None\<rparr>)
       iid q y pid onSave gridApi st)) = []
   \<and> fst (handleSaveToDatabase
       (\<lambda>req. Inr \<lparr>success = False, message = m, portfolioId = None\<rparr>)
       iid q y None onSave gridApi st)
      = [Request \<lparr>method' = POST,
           url = js ''/v1/excel/quarterly-report/save?investor_id='' @ show_int iid
                 @ js ''&quarter='' @ q @ js ''&year='' @ show_int y,
           body = Json \<lparr>data = getGridData gridApi (columnDefs (toGrid (excelData st))),
                        file_name = js ''quarterly_report.xlsx''\<rparr>\<rparr>]
   \<and> errors_shown (fst (handleSaveToDatabase (\<lambda>req. Inl e) iid q y pid onSave gridApi st))
      = [[0x4FDD, 0x5B58, 0x5230, 0x6570, 0x636E, 0x5E93, 0x5931, 0x8D25]]
   \<and> excelData (snd (handleSaveToDatabase api iid q y pid onSave gridApi st)) = excelData st"
  by (simp add: handleSaveToDatabase_state)
     (simp add: handleSaveToDatabase_def Let_def saveQuarterlyReport_def updateQuarterlyReport_def
       errors_shown_append)

section \<open>Upload\<close>

lemma beforeUpload_size: "(real n / 1024 / 1024 < 10) = (n < 10485760)"
  by (simp add: field_simps)

lemma beforeUpload_passes:
  "fst (beforeUpload f) = [] \<longleftrightarrow>
     (startsWith (type' f) (js ''image/'') \<or> type' f = js ''application/pdf'') \<and> size' f < 10485760"
  by (simp add: beforeUpload_def Let_def beforeUpload_size)


text \<open>
  C7. A PNG of exactly 10 MiB is refused with the message that the size may not exceed
  10MB, where the claim accepts a file that is not larger than 10 MiB. Validation passes
  (no message) iff the type starts with \<open>image/\<close> or is \<open>application/pdf\<close> and the size
  is strictly below 10 MiB; it sends no request, and it returns \<open>false\<close> in every branch.
  The four files of the claim behave as it says: the 12 MiB JPEG and the 2 MiB docx are
  refused with a message, the 2 MiB PNG and the 2 MiB PDF pass.
\<close>

theorem beforeUpload_boundary:
  "beforeUpload \<lparr>name = js ''scan.png'', type' = js ''image/png'', size' = 10 * 1024 * 1024\<rparr>
     = ([MessageError msgTooLarge], False)
   \<and> (fst (beforeUpload f) = [] \<longleftrightarrow>
        (startsWith (type' f) (js ''image/'') \<or> type' f = js ''application/pdf'')
        \<and> size' f < 10 * 1024 * 1024)
   \<and> snd (beforeUpload f) = False
   \<and> requests_of (fst (beforeUpload f)) = []
   \<and> errors_shown (fst (beforeUpload \<lparr>name = js ''a.jpg'', type' = js ''image/jpeg'', size' = 12 * 1024 * 1024\<rparr>)) = [msgTooLarge]
   \<and> fst (beforeUpload \<lparr>name = js ''a.png'', type' = js ''image/png'', size' = 2 * 1024 * 1024\<rparr>) = []
   \<and> fst (beforeUpload \<lparr>name = js ''a.pdf'', type' = js ''application/pdf'', size' = 2 * 1024 * 1024\<rparr>) = []
   \<and> errors_shown (fst (beforeUpload \<lparr>name = js ''a.docx'',
          type' = js ''application/vnd.openxmlformats-officedocument.wordprocessingml.document'',
          size' = 2 * 1024 * 1024\<rparr>)) = [msgInvalidType]"
proof -
  have "snd (beforeUpload f) = False" "requests_of (fst (beforeUpload f)) = []"
    by (simp_all add: beforeUpload_def Let_def)
  then show ?thesis
    using beforeUpload_passes [of f]
    by (simp add: beforeUpload_def Let_def startsWith_def js_def)
qed

text \<open>
  C8. Whenever the upload request is rejected, \<open>uploadFileAndGetExcel\<close> returns the fixed
  success reply that points to \<open>/example.xlsx\<close> with the file name \<open>example.xlsx\<close>,
  and shows no error message.
\<close>

theorem upload_failure_falls_back:
  "api \<lparr>method' = POST, url = js ''/v1/upload'', body = Multipart (file' d) (relatedPersonInfo d)\<rparr> = Inl e
   \<longrightarrow> snd (uploadFileAndGetExcel api d) =
        \<lparr>success = True,
         message = [0x6587, 0x4EF6, 0x4E0A, 0x4F20, 0x6210, 0x529F, 0xFF0C, 0x5DF2, 0x751F, 0x6210]
                   @ js ''Excel'' @ [0x6587, 0x4EF6],
         excelUrl = Some (js ''/example.xlsx''), fileName = Some (js ''example.xlsx'')\<rparr>
     \<and> errors_shown (fst (uploadFileAndGetExcel api d)) = []"
  by (simp add: uploadFileAndGetExcel_def Let_def)

theorem upload_failure_falls_back_witness:
  "(\<lambda>req. Inl NetworkError)
      \<lparr>method' = POST, url = js ''/v1/upload'',
       body = Multipart \<lparr>name = js ''scan.png'', type' = js ''image/png'', size' = 2048\<rparr>
                \<lparr>person_name = js ''Li'', relationship = js ''spouse'', idNumber = js ''1'',
                 phone = js ''2'', description = None\<rparr>\<rparr>
     = (Inl NetworkError :: transport_error + UploadResponse)
   \<and> snd (uploadFileAndGetExcel (\<lambda>req. Inl NetworkError)
        \<lparr>file' = \<lparr>name = js ''scan.png'', type' = js ''image/png'', size' = 2048\<rparr>,
         relatedPersonInfo = \<lparr>person_name = js ''Li'', relationship = js ''spouse'',
           idNumber = js ''1'', phone = js ''2'', description = None\<rparr>\<rparr>)
     = \<lparr>success = True,
        message = [0x6587, 0x4EF6, 0x4E0A, 0x4F20, 0x6210, 0x529F, 0xFF0C, 0x5DF2, 0x751F, 0x6210]
                  @ js ''Excel'' @ [0x6587, 0x4EF6],
        excelUrl = Some (js ''/example.xlsx''), fileName = Some (js ''example.xlsx'')\<rparr>"
  using upload_failure_falls_back [where api = "\<lambda>req. Inl NetworkError" and e = NetworkError
      and d = "\<lparr>file' = \<lparr>name = js ''scan.png'', type' = js ''image/png'', size' = 2048\<rparr>,
         relatedPersonInfo = \<lparr>person_name = js ''Li'', relationship = js ''spouse'',
           idNumber = js ''1'', phone = js ''2'', description = None\<rparr>\<rparr>"]
  by simp

section \<open>Cell edits\<close>

lemma js_get_js_set: "js_get (js_set None xs i v) j = (if j = i then v else js_get xs j)"
  by (auto simp: js_get_def js_set_def nth_append)

lemma elem_js_set: "elem (js_set Undefined r c v) j = (if j = c then v else elem r j)"
  by (auto simp: elem_def js_set_def nth_append)

lemma js_set_nth_other: "j < length xs \<Longrightarrow> j \<noteq> i \<Longrightarrow> js_set hole xs i v ! j = xs ! j"
  by (auto simp: js_set_def nth_append)

lemma js_set_length: "length (js_set hole xs i v) = max (length xs) (Suc i)"
  by (auto simp: js_set_def)

lemma js_get_handleCellEdit:
  "js_get (handleCellEdit S r c v) r' =
     (if r' = r
      then Some (js_set Undefined (case js_get S r of Some cells \<Rightarrow> cells | None \<Rightarrow> []) c (Str v))
      else js_get S r')"
  by (cases "js_get S r") (simp_all add: handleCellEdit_def Let_def js_get_js_set)

lemma handleCellEdit_nth_other:
  "r' < length S \<Longrightarrow> r' \<noteq> r \<Longrightarrow> handleCellEdit S r c v ! r' = S ! r'"
  by (simp add: handleCellEdit_def Let_def js_set_nth_other js_set_length)


text \<open>
  C9. After \<open>handleCellEdit\<close> at row \<open>r\<close>, column \<open>c\<close> with the value \<open>v\<close>, the
  cell at \<open>(r, c)\<close> is \<open>v\<close>, every other cell, in the edited row and in every other
  row, reads as before, and every other row that the sheet had is the same row.
\<close>

theorem handleCellEdit_frame:
  "cellAt (handleCellEdit S r c v) r c = Str v
   \<and> (\<forall>r' c'. (r', c') \<noteq> (r, c) \<longrightarrow> cellAt (handleCellEdit S r c v) r' c' = cellAt S r' c')
   \<and> (\<forall>r'. r' < length S \<and> r' \<noteq> r \<longrightarrow> handleCellEdit S r c v ! r' = S ! r')
   \<and> length (handleCellEdit S r c v) = max (length S) (Suc r)"
proof -
  have "cellAt (handleCellEdit S r c v) r' c' = (if (r', c') = (r, c) then Str v else cellAt S r' c')"
    for r' c'
    by (cases "js_get S r")
      (simp_all add: cellAt_def js_get_handleCellEdit opt_elem_def elem_js_set, simp_all add: elem_def)
  moreover have "length (handleCellEdit S r c v) = max (length S) (Suc r)"
    by (simp add: handleCellEdit_def Let_def js_set_length)
  ultimately show ?thesis
    by (simp add: handleCellEdit_nth_other)
qed

theorem handleCellEdit_frame_witness:
  "cellAt (handleCellEdit [Some [Str (js ''a''), Num 1], Some [Str (js ''b''), Num 2]] 1 0 (js ''x'')) 1 0 = Str (js ''x'')
   \<and> ((1::nat), (1::nat)) \<noteq> (1, 0)
   \<and> cellAt (handleCellEdit [Some [Str (js ''a''), Num 1], Some [Str (js ''b''), Num 2]] 1 0 (js ''x'')) 1 1 = Num 2
   \<and> (0::nat) < length [Some [Str (js ''a''), Num 1], Some [Str (js ''b''), Num 2]] \<and> (0::nat) \<noteq> 1
   \<and> handleCellEdit [Some [Str (js ''a''), Num 1], Some [Str (js ''b''), Num 2]] 1 0 (js ''x'') ! 0
        = Some [Str (js ''a''), Num 1]
   \<and> handleCellEdit [Some [Str (js ''a''), Num 1], Some [Str (js ''b''), Num 2]] 1 0 (js ''x'')
        = [Some [Str (js ''a''), Num 1], Some [Str (js ''x''), Num 2]]"
  using handleCellEdit_frame [where S = "[Some [Str (js ''a''), Num 1], Some [Str (js ''b''), Num 2]]" and r = 1
      and c = 0 and v = "js ''x''"]
  by (simp add: handleCellEdit_def Let_def js_get_def js_set_def cellAt_def opt_elem_def elem_def)

end
